theory Spec2Isabelle
  imports Complex_Main
begin

section \<open>Vendor payloads: JavaScript values\<close>

text \<open>
  The vendor's response bodies are parsed JSON and typed \<^verbatim>\<open>any\<close> in the source.
  A number is the value of the double its literal parses to, a rational (JSON has no
  NaN); an object is the list of its members, the first binding of a key being the one
  a read returns.
\<close>

datatype jsval =
    JUndefined
  | JNull
  | JBool bool
  | JNum rat
  | JStr string
  | JArr "jsval list"
  | JObj "(string \<times> jsval) list"

datatype axios_failure = NetworkFailure | HttpStatus nat

text \<open>What a \<^verbatim>\<open>throw\<close> carries: a TypeError of the runtime, or the error axios rejects with.\<close>

datatype thrown = TypeError string | AxiosError axios_failure

text \<open>Truthiness, as \<^verbatim>\<open>!x\<close>, \<^verbatim>\<open>x || y\<close> and \<^verbatim>\<open>if (x)\<close> read it.\<close>

fun truthy :: "jsval \<Rightarrow> bool" where
  "truthy JUndefined = False"
| "truthy JNull = False"
| "truthy (JBool b) = b"
| "truthy (JNum n) = (n \<noteq> 0)"
| "truthy (JStr s) = (s \<noteq> [])"
| "truthy (JArr xs) = True"
| "truthy (JObj kvs) = True"

fun nullish :: "jsval \<Rightarrow> bool" where
  "nullish JUndefined = True"
| "nullish JNull = True"
| "nullish v = False"

text \<open>
  \<^verbatim>\<open>x.k\<close> for a value that is not null or undefined: the member of an object, and
  undefined on a missing member and on a number, boolean, string or array (none of the
  keys the source reads is a property of those). Reading a property of null or undefined
  throws; the callers below test \<open>nullish\<close> first.
\<close>

fun js_get :: "jsval \<Rightarrow> string \<Rightarrow> jsval" where
  "js_get (JObj kvs) k = (case map_of kvs k of Some v \<Rightarrow> v | None \<Rightarrow> JUndefined)"
| "js_get v k = JUndefined"

text \<open>\<^verbatim>\<open>x?.k\<close>: undefined when \<open>x\<close> is null or undefined.\<close>

definition optional_chain :: "jsval \<Rightarrow> string \<Rightarrow> jsval" where
  "optional_chain x k = (if nullish x then JUndefined else js_get x k)"

text \<open>\<^verbatim>\<open>x || y\<close>.\<close>

definition js_or :: "jsval \<Rightarrow> jsval \<Rightarrow> jsval" where
  "js_or x y = (if truthy x then x else y)"

text \<open>
  \<^verbatim>\<open>a === b\<close> for two values held at different places of one parsed payload: equal
  primitives of the same type are equal; two objects or arrays are different references.
\<close>

fun strict_eq :: "jsval \<Rightarrow> jsval \<Rightarrow> bool" where
  "strict_eq JUndefined JUndefined = True"
| "strict_eq JNull JNull = True"
| "strict_eq (JBool a) (JBool b) = (a = b)"
| "strict_eq (JNum a) (JNum b) = (a = b)"
| "strict_eq (JStr a) (JStr b) = (a = b)"
| "strict_eq a b = False"

text \<open>\<^verbatim>\<open>xs.map(f)\<close>: the callback runs on each element in order and a throw ends the loop.\<close>

fun map_throwing :: "('a \<Rightarrow> thrown + 'b) \<Rightarrow> 'a list \<Rightarrow> thrown + 'b list" where
  "map_throwing f [] = Inr []"
| "map_throwing f (x # xs) =
     (case f x of
        Inl e \<Rightarrow> Inl e
      | Inr y \<Rightarrow> (case map_throwing f xs of Inl e \<Rightarrow> Inl e | Inr ys \<Rightarrow> Inr (y # ys)))"

text \<open>Only an array has \<^verbatim>\<open>map\<close>: on any other value the call is a TypeError.\<close>

definition js_map :: "jsval \<Rightarrow> (jsval \<Rightarrow> thrown + jsval) \<Rightarrow> thrown + jsval list" where
  "js_map v f =
     (case v of JArr xs \<Rightarrow> map_throwing f xs | _ \<Rightarrow> Inl (TypeError ''map is not a function''))"

text \<open>
  An object literal whose members are all read off one parameter \<open>x\<close>: the first read
  throws when \<open>x\<close> is null or undefined, and no read throws otherwise.
\<close>

definition reading :: "jsval \<Rightarrow> (string \<times> jsval) list \<Rightarrow> thrown + jsval" where
  "reading x members =
     (if nullish x then Inl (TypeError ''Cannot read properties of null or undefined'')
      else Inr (JObj members))"

section \<open>data-sync.ts: normalisation\<close>

definition processAccounts :: "jsval \<Rightarrow> thrown + jsval list" where
  "processAccounts data =
     (if \<not> truthy data \<or> \<not> truthy (js_get data ''QueryResponse'')
         \<or> \<not> truthy (js_get (js_get data ''QueryResponse'') ''Account'')
      then Inr []
      else js_map (js_get (js_get data ''QueryResponse'') ''Account'')
        (\<lambda>account. reading account
           [(''id'', js_get account ''Id''),
            (''name'', js_get account ''Name''),
            (''type'', js_get account ''AccountType''),
            (''subType'', js_get account ''AccountSubType''),
            (''balance'', js_get account ''CurrentBalance''),
            (''isActive'', js_get account ''Active'')]))"

definition processCustomers :: "jsval \<Rightarrow> thrown + jsval list" where
  "processCustomers data =
     (if \<not> truthy data \<or> \<not> truthy (js_get data ''QueryResponse'')
         \<or> \<not> truthy (js_get (js_get data ''QueryResponse'') ''Customer'')
      then Inr []
      else js_map (js_get (js_get data ''QueryResponse'') ''Customer'')
        (\<lambda>customer. reading customer
           [(''id'', js_get customer ''Id''),
            (''displayName'', js_get customer ''DisplayName''),
            (''companyName'', js_get customer ''CompanyName''),
            (''email'', optional_chain (js_get customer ''PrimaryEmailAddr'') ''Address''),
            (''phone'', optional_chain (js_get customer ''PrimaryPhone'') ''FreeFormNumber''),
            (''balance'', js_get customer ''Balance''),
            (''isActive'', js_get customer ''Active'')]))"

definition getInvoiceStatus :: "jsval \<Rightarrow> string" where
  "getInvoiceStatus invoice =
     (if strict_eq (js_get invoice ''Balance'') (JNum 0) then ''Paid''
      else if strict_eq (js_get invoice ''Balance'') (js_get invoice ''TotalAmt'') then ''Unpaid''
      else ''Partial'')"

text \<open>The callback of \<^verbatim>\<open>processInvoices\<close>: one invoice of the vendor to its record.\<close>

definition invoiceRecord :: "jsval \<Rightarrow> thrown + jsval" where
  "invoiceRecord invoice =
     (if nullish invoice then Inl (TypeError ''Cannot read properties of null or undefined'')
      else
        (case js_map (js_or (js_get invoice ''Line'') (JArr []))
                (\<lambda>line. reading line
                   [(''description'', js_get line ''Description''),
                    (''amount'', js_get line ''Amount''),
                    (''quantity'', js_get line ''Quantity''),
                    (''unitPrice'', js_get line ''UnitPrice'')]) of
           Inl e \<Rightarrow> Inl e
         | Inr lineItems \<Rightarrow>
             Inr (JObj
               [(''id'', js_get invoice ''Id''),
                (''customerId'', optional_chain (js_get invoice ''CustomerRef'') ''value''),
                (''customerName'', optional_chain (js_get invoice ''CustomerRef'') ''name''),
                (''date'', js_get invoice ''TxnDate''),
                (''dueDate'', js_get invoice ''DueDate''),
                (''total'', js_get invoice ''TotalAmt''),
                (''balance'', js_get invoice ''Balance''),
                (''status'', JStr (getInvoiceStatus invoice)),
                (''lineItems'', JArr lineItems)])))"

definition processInvoices :: "jsval \<Rightarrow> thrown + jsval list" where
  "processInvoices data =
     (if \<not> truthy data \<or> \<not> truthy (js_get data ''QueryResponse'')
         \<or> \<not> truthy (js_get (js_get data ''QueryResponse'') ''Invoice'')
      then Inr []
      else js_map (js_get (js_get data ''QueryResponse'') ''Invoice'') invoiceRecord)"

text \<open>The callback of \<^verbatim>\<open>processBills\<close>.\<close>

definition billRecord :: "jsval \<Rightarrow> thrown + jsval" where
  "billRecord bill =
     (if nullish bill then Inl (TypeError ''Cannot read properties of null or undefined'')
      else
        (case js_map (js_or (js_get bill ''Line'') (JArr []))
                (\<lambda>line. reading line
                   [(''description'', js_get line ''Description''),
                    (''amount'', js_get line ''Amount'')]) of
           Inl e \<Rightarrow> Inl e
         | Inr lineItems \<Rightarrow>
             Inr (JObj
               [(''id'', js_get bill ''Id''),
                (''vendorId'', optional_chain (js_get bill ''VendorRef'') ''value''),
                (''vendorName'', optional_chain (js_get bill ''VendorRef'') ''name''),
                (''date'', js_get bill ''TxnDate''),
                (''dueDate'', js_get bill ''DueDate''),
                (''total'', js_get bill ''TotalAmt''),
                (''balance'', js_get bill ''Balance''),
                (''status'',
                   JStr (if strict_eq (js_get bill ''Balance'') (JNum 0) then ''Paid'' else ''Unpaid'')),
                (''lineItems'', JArr lineItems)])))"

definition processBills :: "jsval \<Rightarrow> thrown + jsval list" where
  "processBills data =
     (if \<not> truthy data \<or> \<not> truthy (js_get data ''QueryResponse'')
         \<or> \<not> truthy (js_get (js_get data ''QueryResponse'') ''Bill'')
      then Inr []
      else js_map (js_get (js_get data ''QueryResponse'') ''Bill'') billRecord)"

definition processPayments :: "jsval \<Rightarrow> thrown + jsval list" where
  "processPayments data =
     (if \<not> truthy data \<or> \<not> truthy (js_get data ''QueryResponse'')
         \<or> \<not> truthy (js_get (js_get data ''QueryResponse'') ''Payment'')
      then Inr []
      else js_map (js_get (js_get data ''QueryResponse'') ''Payment'')
        (\<lambda>payment. reading payment
           [(''id'', js_get payment ''Id''),
            (''customerId'', optional_chain (js_get payment ''CustomerRef'') ''value''),
            (''customerName'', optional_chain (js_get payment ''CustomerRef'') ''name''),
            (''date'', js_get payment ''TxnDate''),
            (''amount'', js_get payment ''TotalAmt''),
            (''paymentMethod'', optional_chain (js_get payment ''PaymentMethodRef'') ''name'')]))"

definition processReport :: "jsval \<Rightarrow> jsval" where
  "processReport data = data"

text \<open>
  The collection a vendor payload holds for a category, read off the JSON itself:
  \<open>None\<close> when the payload, its \<^verbatim>\<open>QueryResponse\<close> or the member is missing.
\<close>

definition vendor_collection :: "string \<Rightarrow> jsval \<Rightarrow> jsval option" where
  "vendor_collection k data =
     (case data of
        JObj members \<Rightarrow>
          (case map_of members ''QueryResponse'' of
             Some (JObj qr) \<Rightarrow> map_of qr k
           | _ \<Rightarrow> None)
      | _ \<Rightarrow> None)"

definition missing_or_empty :: "jsval option \<Rightarrow> bool" where
  "missing_or_empty c = (c = None \<or> c = Some JUndefined \<or> c = Some JNull \<or> c = Some (JArr []))"

section \<open>Strings the requests are built from\<close>

text \<open>
  A string is the sequence of its UTF-8 bytes. \<^verbatim>\<open>encodeURIComponent\<close> keeps the
  unreserved characters and writes every other byte as a percent sign and two
  upper-case hexadecimal digits.
\<close>

definition hex_digit :: "nat \<Rightarrow> char" where
  "hex_digit n = ''0123456789ABCDEF'' ! n"

definition percent_byte :: "char \<Rightarrow> string" where
  "percent_byte ch = [CHR ''%'', hex_digit (of_char ch div 16), hex_digit (of_char ch mod 16)]"

definition uri_unreserved :: "char \<Rightarrow> bool" where
  "uri_unreserved ch =
     (ch \<in> set ''ABCDEFGHIJKLMNOPQRSTUVWXYZabcdefghijklmnopqrstuvwxyz0123456789-_.!~*()''
      \<or> ch = CHR 0x27)"

definition encodeURIComponent :: "string \<Rightarrow> string" where
  "encodeURIComponent s = concat (map (\<lambda>ch. if uri_unreserved ch then [ch] else percent_byte ch) s)"

text \<open>
  \<^verbatim>\<open>new URLSearchParams({...}).toString()\<close>: the form encoding, which keeps letters,
  digits and \<^verbatim>\<open>*-._\<close>, writes a space as a plus sign, and joins the pairs with
  \<^verbatim>\<open>&\<close>.
\<close>

definition form_byte :: "char \<Rightarrow> string" where
  "form_byte ch =
     (if ch \<in> set ''ABCDEFGHIJKLMNOPQRSTUVWXYZabcdefghijklmnopqrstuvwxyz0123456789*-._'' then [ch]
      else if ch = CHR '' '' then ''+''
      else percent_byte ch)"

fun URLSearchParams_toString :: "(string \<times> string) list \<Rightarrow> string" where
  "URLSearchParams_toString [] = []"
| "URLSearchParams_toString [(k, v)] = concat (map form_byte k) @ ''='' @ concat (map form_byte v)"
| "URLSearchParams_toString ((k, v) # rest) =
     concat (map form_byte k) @ ''='' @ concat (map form_byte v) @ ''&'' @ URLSearchParams_toString rest"

text \<open>\<^verbatim>\<open>Buffer.from(s).toString("base64")\<close>, on the bytes of \<open>s\<close>.\<close>

definition base64_digit :: "nat \<Rightarrow> char" where
  "base64_digit n = ''ABCDEFGHIJKLMNOPQRSTUVWXYZabcdefghijklmnopqrstuvwxyz0123456789+/'' ! n"

fun base64_bytes :: "nat list \<Rightarrow> string" where
  "base64_bytes [] = []"
| "base64_bytes [a] = [base64_digit (a div 4), base64_digit ((a mod 4) * 16), CHR ''='', CHR ''='']"
| "base64_bytes [a, b] =
     [base64_digit (a div 4), base64_digit ((a mod 4) * 16 + b div 16),
      base64_digit ((b mod 16) * 4), CHR ''='']"
| "base64_bytes (a # b # c # rest) =
     [base64_digit (a div 4), base64_digit ((a mod 4) * 16 + b div 16),
      base64_digit ((b mod 16) * 4 + c div 64), base64_digit (c mod 64)] @ base64_bytes rest"

definition base64 :: "string \<Rightarrow> string" where
  "base64 s = base64_bytes (map of_char s)"

text \<open>
  An optional string argument or option (\<^verbatim>\<open>startDate?: string\<close>) is \<open>None\<close> when
  omitted. \<^verbatim>\<open>if (x)\<close> takes it for present when it is a non-empty string: the empty
  string is falsy.
\<close>

fun present :: "string option \<Rightarrow> bool" where
  "present None = False"
| "present (Some s) = (s \<noteq> [])"

text \<open>An optional string inside a template literal.\<close>

fun interpolate :: "string option \<Rightarrow> string" where
  "interpolate None = ''undefined''"
| "interpolate (Some s) = s"

text \<open>The \<open>n\<close>-th argument of a call: undefined when the call passes fewer.\<close>

fun nth_arg :: "'a option list \<Rightarrow> nat \<Rightarrow> 'a option" where
  "nth_arg [] n = None"
| "nth_arg (a # as) 0 = a"
| "nth_arg (a # as) (Suc n) = nth_arg as n"

section \<open>auth.ts: the configuration\<close>

record qb_config =
  clientId :: string
  clientSecret :: string
  redirectUri :: string
  environment :: string
  scopes :: "string list"

text \<open>\<^verbatim>\<open>process.env.X || d\<close>.\<close>

fun string_or :: "string option \<Rightarrow> string \<Rightarrow> string" where
  "string_or None d = d"
| "string_or (Some s) d = (if s = [] then d else s)"

definition QB_CONFIG :: "(string \<Rightarrow> string option) \<Rightarrow> qb_config" where
  "QB_CONFIG env =
     \<lparr>clientId = string_or (env ''QUICKBOOKS_CLIENT_ID'') [],
      clientSecret = string_or (env ''QUICKBOOKS_CLIENT_SECRET'') [],
      redirectUri = string_or (env ''QUICKBOOKS_REDIRECT_URI'')
         ''https://your-domain.com/api/quickbooks/auth/callback'',
      environment = (if env ''NODE_ENV'' = Some ''production'' then ''production'' else ''sandbox''),
      scopes = [''com.intuit.quickbooks.accounting'', ''com.intuit.quickbooks.payment'']\<rparr>"

section \<open>The world the client runs in\<close>

text \<open>A request as axios sends it: the URL, the body of a POST, and the headers.\<close>

datatype request =
    GET string "(string \<times> string) list"
  | POST string string "(string \<times> string) list"

text \<open>
  The body of a successful answer of the token endpoint: \<^verbatim>\<open>access_token\<close>,
  \<^verbatim>\<open>refresh_token\<close> (which the source allows to be missing) and \<^verbatim>\<open>expires_in\<close>,
  in seconds.
\<close>

record token_response =
  access_token :: string
  refresh_token :: "string option"
  expires_in :: int

text \<open>
  The vendor: what it answers to a request, given the requests it has received before,
  and how many milliseconds pass until the answer arrives.
\<close>

record vendor =
  get_answer :: "request list \<Rightarrow> request \<Rightarrow> axios_failure + jsval"
  post_answer :: "request list \<Rightarrow> request \<Rightarrow> axios_failure + token_response"
  latency :: "request list \<Rightarrow> request \<Rightarrow> nat"

text \<open>
  What \<^verbatim>\<open>localStorage\<close> and the cookie hold. \<^verbatim>\<open>JSON.stringify\<close> is left symbolic: the
  stored value is the object it is applied to.
\<close>

datatype stored =
    AuthData string "string option" int string
  | SyncedData int "(string \<times> jsval) list"

record world =
  now :: int
  localStorage :: "string \<Rightarrow> stored option"
  sent :: "request list"

definition axios_get :: "vendor \<Rightarrow> request \<Rightarrow> world \<Rightarrow> (axios_failure + jsval) \<times> world" where
  "axios_get v r w =
     (get_answer v (sent w) r,
      w\<lparr>now := now w + int (latency v (sent w) r), sent := sent w @ [r]\<rparr>)"

definition axios_post :: "vendor \<Rightarrow> request \<Rightarrow> world \<Rightarrow> (axios_failure + token_response) \<times> world" where
  "axios_post v r w =
     (post_answer v (sent w) r,
      w\<lparr>now := now w + int (latency v (sent w) r), sent := sent w @ [r]\<rparr>)"

definition setItem :: "string \<Rightarrow> stored \<Rightarrow> world \<Rightarrow> world" where
  "setItem k x w = w\<lparr>localStorage := (localStorage w)(k \<mapsto> x)\<rparr>"

section \<open>quickbooks-api.ts: the client\<close>

record QuickBooksAPI =
  accessToken :: string
  refreshToken :: string
  realmId :: string
  tokenExpiresAt :: int
  baseUrl :: string

text \<open>What a method leaves behind: its value or what it throws, the client and the world.\<close>

type_synonym 'a outcome = "(thrown + 'a) \<times> QuickBooksAPI \<times> world"

definition new_QuickBooksAPI ::
  "qb_config \<Rightarrow> string \<Rightarrow> string \<Rightarrow> string \<Rightarrow> int option \<Rightarrow> world \<Rightarrow> QuickBooksAPI" where
  "new_QuickBooksAPI c token rtoken realm expiresIn w =
     \<lparr>accessToken = token,
      refreshToken = rtoken,
      realmId = realm,
      tokenExpiresAt =
        (case expiresIn of
           Some n \<Rightarrow> if n \<noteq> 0 then now w + n * 1000 else now w + 3600 * 1000
         | None \<Rightarrow> now w + 3600 * 1000),
      baseUrl =
        (if environment c = ''production'' then ''https://quickbooks.api.intuit.com/v3''
         else ''https://sandbox-quickbooks.api.intuit.com/v3'')\<rparr>"

definition getHeaders :: "QuickBooksAPI \<Rightarrow> (string \<times> string) list" where
  "getHeaders api =
     [(''Authorization'', ''Bearer '' @ accessToken api), (''Accept'', ''application/json'')]"

definition tokenUrl :: string where
  "tokenUrl = ''https://oauth.platform.intuit.com/oauth2/v1/tokens/bearer''"

definition basicAuthHeaders :: "qb_config \<Rightarrow> (string \<times> string) list" where
  "basicAuthHeaders c =
     [(''Content-Type'', ''application/x-www-form-urlencoded''),
      (''Authorization'', ''Basic '' @ base64 (clientId c @ '':'' @ clientSecret c))]"

definition refreshRequest :: "qb_config \<Rightarrow> QuickBooksAPI \<Rightarrow> request" where
  "refreshRequest c api =
     POST tokenUrl
       (URLSearchParams_toString
          [(''grant_type'', ''refresh_token''), (''refresh_token'', refreshToken api)])
       (basicAuthHeaders c)"

definition refreshAccessToken :: "vendor \<Rightarrow> qb_config \<Rightarrow> QuickBooksAPI \<Rightarrow> world \<Rightarrow> bool outcome" where
  "refreshAccessToken v c api w =
     (case axios_post v (refreshRequest c api) w of
        (Inl failure, w1) \<Rightarrow> (Inl (AxiosError failure), api, w1)
      | (Inr response_data, w1) \<Rightarrow>
          (let api1 = api
                 \<lparr>accessToken := access_token response_data,
                  refreshToken := string_or (refresh_token response_data) (refreshToken api),
                  tokenExpiresAt := now w1 + expires_in response_data * 1000\<rparr>
           in (Inr True, api1,
               setItem ''qb_auth_data''
                 (AuthData (accessToken api1) (Some (refreshToken api1))
                    (expires_in response_data) (realmId api1))
                 w1)))"

definition ensureValidToken :: "vendor \<Rightarrow> qb_config \<Rightarrow> QuickBooksAPI \<Rightarrow> world \<Rightarrow> unit outcome" where
  "ensureValidToken v c api w =
     (if now w \<ge> tokenExpiresAt api - 300000 then
        (case refreshAccessToken v c api w of
           (Inl e, api1, w1) \<Rightarrow> (Inl e, api1, w1)
         | (Inr ok, api1, w1) \<Rightarrow> (Inr (), api1, w1))
      else (Inr (), api, w))"

text \<open>
  The body every read method shares: \<^verbatim>\<open>await this.ensureValidToken()\<close>, then
  \<^verbatim>\<open>axios.get(url, {headers: this.getHeaders()})\<close> with the method's URL, then
  \<^verbatim>\<open>response.data\<close>; the \<^verbatim>\<open>catch\<close> rethrows what it caught.
\<close>

definition ensured_get ::
  "vendor \<Rightarrow> qb_config \<Rightarrow> (QuickBooksAPI \<Rightarrow> string) \<Rightarrow> QuickBooksAPI \<Rightarrow> world \<Rightarrow> jsval outcome" where
  "ensured_get v c url api w =
     (case ensureValidToken v c api w of
        (Inl e, api1, w1) \<Rightarrow> (Inl e, api1, w1)
      | (Inr u, api1, w1) \<Rightarrow>
          (case axios_get v (GET (url api1) (getHeaders api1)) w1 of
             (Inl failure, w2) \<Rightarrow> (Inl (AxiosError failure), api1, w2)
           | (Inr response_data, w2) \<Rightarrow> (Inr response_data, api1, w2)))"

definition companyUrl :: "QuickBooksAPI \<Rightarrow> string" where
  "companyUrl api = baseUrl api @ ''/company/'' @ realmId api"

definition getCompanyInfo :: "vendor \<Rightarrow> qb_config \<Rightarrow> QuickBooksAPI \<Rightarrow> world \<Rightarrow> jsval outcome" where
  "getCompanyInfo v c =
     ensured_get v c (\<lambda>api. companyUrl api @ ''/companyinfo/'' @ realmId api)"

definition getAccounts :: "vendor \<Rightarrow> qb_config \<Rightarrow> QuickBooksAPI \<Rightarrow> world \<Rightarrow> jsval outcome" where
  "getAccounts v c =
     ensured_get v c (\<lambda>api. companyUrl api @ ''/query?query=select * from Account'')"

definition getCustomers :: "vendor \<Rightarrow> qb_config \<Rightarrow> QuickBooksAPI \<Rightarrow> world \<Rightarrow> jsval outcome" where
  "getCustomers v c =
     ensured_get v c (\<lambda>api. companyUrl api @ ''/query?query=select * from Customer'')"

text \<open>
  The query \<^verbatim>\<open>getInvoices\<close>, \<^verbatim>\<open>getBills\<close> and \<^verbatim>\<open>getPayments\<close> each build, in the
  same way, from their own select statement.
\<close>

definition dateRangeQuery :: "string \<Rightarrow> string option \<Rightarrow> string option \<Rightarrow> string" where
  "dateRangeQuery select startDate endDate =
     (let query = select;
          query =
            (if present startDate \<or> present endDate then
               (let query = query @ '' WHERE '';
                    query =
                      (if present startDate
                       then query @ ''TxnDate >= '' @ [CHR 0x27] @ interpolate startDate @ [CHR 0x27]
                       else query);
                    query = (if present startDate \<and> present endDate then query @ '' AND '' else query);
                    query =
                      (if present endDate
                       then query @ ''TxnDate <= '' @ [CHR 0x27] @ interpolate endDate @ [CHR 0x27]
                       else query)
                in query)
             else query)
      in query)"

definition queryUrl :: "QuickBooksAPI \<Rightarrow> string \<Rightarrow> string" where
  "queryUrl api query = companyUrl api @ ''/query?query='' @ encodeURIComponent query"

definition getInvoices ::
  "vendor \<Rightarrow> qb_config \<Rightarrow> string option \<Rightarrow> string option \<Rightarrow> QuickBooksAPI \<Rightarrow> world \<Rightarrow> jsval outcome" where
  "getInvoices v c startDate endDate =
     ensured_get v c (\<lambda>api. queryUrl api (dateRangeQuery ''select * from Invoice'' startDate endDate))"

definition getBills ::
  "vendor \<Rightarrow> qb_config \<Rightarrow> string option \<Rightarrow> string option \<Rightarrow> QuickBooksAPI \<Rightarrow> world \<Rightarrow> jsval outcome" where
  "getBills v c startDate endDate =
     ensured_get v c (\<lambda>api. queryUrl api (dateRangeQuery ''select * from Bill'' startDate endDate))"

definition getPayments ::
  "vendor \<Rightarrow> qb_config \<Rightarrow> string option \<Rightarrow> string option \<Rightarrow> QuickBooksAPI \<Rightarrow> world \<Rightarrow> jsval outcome" where
  "getPayments v c startDate endDate =
     ensured_get v c (\<lambda>api. queryUrl api (dateRangeQuery ''select * from Payment'' startDate endDate))"

definition getProfitAndLossReport ::
  "vendor \<Rightarrow> qb_config \<Rightarrow> string \<Rightarrow> string \<Rightarrow> QuickBooksAPI \<Rightarrow> world \<Rightarrow> jsval outcome" where
  "getProfitAndLossReport v c startDate endDate =
     ensured_get v c
       (\<lambda>api. companyUrl api @ ''/reports/ProfitAndLoss?start_date='' @ startDate
              @ ''&end_date='' @ endDate)"

definition getBalanceSheetReport ::
  "vendor \<Rightarrow> qb_config \<Rightarrow> string \<Rightarrow> QuickBooksAPI \<Rightarrow> world \<Rightarrow> jsval outcome" where
  "getBalanceSheetReport v c date =
     ensured_get v c (\<lambda>api. companyUrl api @ ''/reports/BalanceSheet?as_of='' @ date)"

definition getCashFlowReport ::
  "vendor \<Rightarrow> qb_config \<Rightarrow> string \<Rightarrow> string \<Rightarrow> QuickBooksAPI \<Rightarrow> world \<Rightarrow> jsval outcome" where
  "getCashFlowReport v c startDate endDate =
     ensured_get v c
       (\<lambda>api. companyUrl api @ ''/reports/CashFlow?start_date='' @ startDate
              @ ''&end_date='' @ endDate)"

text \<open>
  \<^verbatim>\<open>this.api.name(args)\<close>: the method is looked up by its name among the methods the
  class defines, and calling a name the class does not define is a TypeError. A string
  parameter that a call leaves out is undefined. The table holds the methods that
  return a payload; the orchestrator calls no other member of the class.
\<close>

definition QuickBooksAPI_methods ::
  "(string \<times> (vendor \<Rightarrow> qb_config \<Rightarrow> string option list \<Rightarrow> QuickBooksAPI \<Rightarrow> world \<Rightarrow> jsval outcome)) list" where
  "QuickBooksAPI_methods =
     [(''getCompanyInfo'', \<lambda>v c args. getCompanyInfo v c),
      (''getAccounts'', \<lambda>v c args. getAccounts v c),
      (''getCustomers'', \<lambda>v c args. getCustomers v c),
      (''getInvoices'', \<lambda>v c args. getInvoices v c (nth_arg args 0) (nth_arg args 1)),
      (''getBills'', \<lambda>v c args. getBills v c (nth_arg args 0) (nth_arg args 1)),
      (''getPayments'', \<lambda>v c args. getPayments v c (nth_arg args 0) (nth_arg args 1)),
      (''getProfitAndLossReport'',
         \<lambda>v c args. getProfitAndLossReport v c (interpolate (nth_arg args 0)) (interpolate (nth_arg args 1))),
      (''getBalanceSheetReport'',
         \<lambda>v c args. getBalanceSheetReport v c (interpolate (nth_arg args 0))),
      (''getCashFlowReport'',
         \<lambda>v c args. getCashFlowReport v c (interpolate (nth_arg args 0)) (interpolate (nth_arg args 1)))]"

definition call_api ::
  "string \<Rightarrow> string option list \<Rightarrow> vendor \<Rightarrow> qb_config \<Rightarrow> QuickBooksAPI \<Rightarrow> world \<Rightarrow> jsval outcome" where
  "call_api name args v c api w =
     (case map_of QuickBooksAPI_methods name of
        None \<Rightarrow> (Inl (TypeError (''this.api.'' @ name @ '' is not a function'')), api, w)
      | Some method \<Rightarrow> method v c args api w)"

text \<open>
  \<^verbatim>\<open>testConnection\<close> never throws: it hands what \<^verbatim>\<open>getCompanyInfo\<close> threw to
  \<^verbatim>\<open>handleQuickBooksError\<close>, which error-handling.ts defines and the sources do not
  hold; it is the parameter \<open>handleError\<close>.
\<close>

record QuickBooksError =
  type :: string
  message :: string

datatype connection_result = Connected | NotConnected QuickBooksError

definition testConnection ::
  "(thrown \<Rightarrow> QuickBooksError) \<Rightarrow> vendor \<Rightarrow> qb_config \<Rightarrow> QuickBooksAPI \<Rightarrow> world
     \<Rightarrow> connection_result \<times> QuickBooksAPI \<times> world" where
  "testConnection handleError v c api w =
     (case getCompanyInfo v c api w of
        (Inl e, api1, w1) \<Rightarrow> (NotConnected (handleError e), api1, w1)
      | (Inr info, api1, w1) \<Rightarrow> (Connected, api1, w1))"

text \<open>
  Modelled from the spec: the class of a failure, which \<^verbatim>\<open>handleQuickBooksError\<close> of
  error-handling.ts (not among the sources) computes. The spec names the classes:
  Authentication (expired or invalid credentials), Connection (network or transport
  failure), RateLimit (vendor throttling), ServerError (vendor-side 5xx), InvalidRequest
  (malformed query or parameters) and Unknown (unclassified), chosen from the status
  code and the kind of network failure. The status codes taken here for the classes the
  spec gives no code for are those of HTTP: 401, 429 and 400.
\<close>

datatype QuickBooksErrorType =
  Authentication | Connection | RateLimit | ServerError | InvalidRequest | Unknown

fun errorClass :: "thrown \<Rightarrow> QuickBooksErrorType" where
  "errorClass (AxiosError NetworkFailure) = Connection"
| "errorClass (AxiosError (HttpStatus s)) =
     (if s = 401 then Authentication
      else if s = 429 then RateLimit
      else if 500 \<le> s \<and> s < 600 then ServerError
      else if s = 400 then InvalidRequest
      else Unknown)"
| "errorClass (TypeError m) = Unknown"

section \<open>data-sync.ts: the orchestrator\<close>

record SyncOptions =
  syncAccounts :: "bool option"
  syncCustomers :: "bool option"
  syncInvoices :: "bool option"
  syncBills :: "bool option"
  syncPayments :: "bool option"
  syncReports :: "bool option"
  startDate :: "string option"
  endDate :: "string option"

text \<open>\<^verbatim>\<open>if (options.syncAccounts)\<close>: an omitted flag is undefined, and falsy.\<close>

fun enabled :: "bool option \<Rightarrow> bool" where
  "enabled None = False"
| "enabled (Some b) = b"

text \<open>
  One of the five blocks of \<^verbatim>\<open>syncData\<close>, on what the blocks before it left (a throw
  leaves the \<^verbatim>\<open>try\<close>, so the block does not run after one):
  \<^verbatim>\<open>if (options.flag) { const d = await this.api.method(); results.key = this.process(d) }\<close>.
  The keys are assigned once each, in order: \<open>results\<close> is the list of the members.
\<close>

definition syncCategory ::
  "vendor \<Rightarrow> qb_config \<Rightarrow> bool option \<Rightarrow> string \<Rightarrow> string \<Rightarrow> (jsval \<Rightarrow> thrown + jsval list)
     \<Rightarrow> ((string \<times> jsval) list) outcome \<Rightarrow> ((string \<times> jsval) list) outcome" where
  "syncCategory v c flag key method process st =
     (case st of
        (Inl e, api, w) \<Rightarrow> (Inl e, api, w)
      | (Inr results, api, w) \<Rightarrow>
          if enabled flag then
            (case call_api method [] v c api w of
               (Inl e, api1, w1) \<Rightarrow> (Inl e, api1, w1)
             | (Inr d, api1, w1) \<Rightarrow>
                 (case process d of
                    Inl e \<Rightarrow> (Inl e, api1, w1)
                  | Inr records \<Rightarrow> (Inr (results @ [(key, JArr records)]), api1, w1)))
          else (Inr results, api, w))"

definition syncReportsBlock ::
  "vendor \<Rightarrow> qb_config \<Rightarrow> SyncOptions \<Rightarrow> ((string \<times> jsval) list) outcome
     \<Rightarrow> ((string \<times> jsval) list) outcome" where
  "syncReportsBlock v c options st =
     (case st of
        (Inl e, api, w) \<Rightarrow> (Inl e, api, w)
      | (Inr results, api, w) \<Rightarrow>
          if enabled (syncReports options) \<and> present (startDate options) \<and> present (endDate options)
          then
            (case call_api ''getProfitAndLossReport'' [startDate options, endDate options] v c api w of
               (Inl e, api1, w1) \<Rightarrow> (Inl e, api1, w1)
             | (Inr plReport, api1, w1) \<Rightarrow>
                 (case call_api ''getBalanceSheet'' [endDate options] v c api1 w1 of
                    (Inl e, api2, w2) \<Rightarrow> (Inl e, api2, w2)
                  | (Inr bsReport, api2, w2) \<Rightarrow>
                      (case call_api ''getCashFlowStatement'' [startDate options, endDate options]
                              v c api2 w2 of
                         (Inl e, api3, w3) \<Rightarrow> (Inl e, api3, w3)
                       | (Inr cfReport, api3, w3) \<Rightarrow>
                           (Inr (results @
                                 [(''profitAndLoss'', processReport plReport),
                                  (''balanceSheet'', processReport bsReport),
                                  (''cashFlow'', processReport cfReport)]),
                            api3, w3))))
          else (Inr results, api, w))"

definition storeData :: "(string \<times> jsval) list \<Rightarrow> world \<Rightarrow> world" where
  "storeData results w = setItem ''quickbooks_data'' (SyncedData (now w) results) w"

text \<open>The body of the \<^verbatim>\<open>try\<close>: the blocks in order, then \<^verbatim>\<open>storeData\<close>.\<close>

definition syncBody ::
  "vendor \<Rightarrow> qb_config \<Rightarrow> SyncOptions \<Rightarrow> QuickBooksAPI \<Rightarrow> world \<Rightarrow> ((string \<times> jsval) list) outcome" where
  "syncBody v c options api w =
     (let st = (Inr [], api, w);
          st = syncCategory v c (syncAccounts options) ''accounts'' ''getAccounts'' processAccounts st;
          st = syncCategory v c (syncCustomers options) ''customers'' ''getCustomers'' processCustomers st;
          st = syncCategory v c (syncInvoices options) ''invoices'' ''getInvoices'' processInvoices st;
          st = syncCategory v c (syncBills options) ''bills'' ''getBills'' processBills st;
          st = syncCategory v c (syncPayments options) ''payments'' ''getPayments'' processPayments st;
          st = syncReportsBlock v c options st
      in case st of
           (Inl e, api1, w1) \<Rightarrow> (Inl e, api1, w1)
         | (Inr results, api1, w1) \<Rightarrow> (Inr results, api1, storeData results w1))"

record sync_result =
  success :: bool
  data :: "(string \<times> jsval) list option"
  error :: "string option"

definition syncData ::
  "vendor \<Rightarrow> qb_config \<Rightarrow> SyncOptions \<Rightarrow> QuickBooksAPI \<Rightarrow> world \<Rightarrow> sync_result \<times> QuickBooksAPI \<times> world" where
  "syncData v c options api w =
     (case syncBody v c options api w of
        (Inr results, api1, w1) \<Rightarrow>
          (\<lparr>success = True, data = Some results, error = None\<rparr>, api1, w1)
      | (Inl e, api1, w1) \<Rightarrow>
          (\<lparr>success = False, data = None, error = Some ''Failed to sync data from QuickBooks''\<rparr>,
           api1, w1))"

section \<open>The OAuth callback route\<close>

record NextRequest =
  origin :: string
  searchParams :: "(string \<times> string) list"

record cookie =
  cookie_name :: string
  cookie_value :: stored
  httpOnly :: bool
  secure :: bool
  maxAge :: nat
  path :: string

datatype NextResponse =
    JsonResponse jsval nat
  | RedirectResponse string "cookie list"

definition exchangeRequest :: "qb_config \<Rightarrow> string \<Rightarrow> request" where
  "exchangeRequest c code =
     POST tokenUrl
       (URLSearchParams_toString
          [(''grant_type'', ''authorization_code''), (''code'', code),
           (''redirect_uri'', redirectUri c)])
       (basicAuthHeaders c)"

text \<open>
  \<^verbatim>\<open>searchParams.get(k)\<close> is the first value of \<open>k\<close>, or null. \<^verbatim>\<open>new URL(p, request.url)\<close>
  with an absolute path \<open>p\<close> is the origin of the request followed by \<open>p\<close>.
\<close>

definition GET_callback ::
  "(thrown \<Rightarrow> QuickBooksError) \<Rightarrow> vendor \<Rightarrow> qb_config \<Rightarrow> NextRequest \<Rightarrow> world \<Rightarrow> NextResponse \<times> world" where
  "GET_callback handleError v c request w =
     (let code = map_of (searchParams request) ''code'';
          state = map_of (searchParams request) ''state'';
          realm = map_of (searchParams request) ''realmId''
      in if \<not> present code \<or> \<not> present state \<or> \<not> present realm then
           (JsonResponse (JObj [(''error'', JStr ''Missing required parameters'')]) 400, w)
         else
           (case axios_post v (exchangeRequest c (the code)) w of
              (Inr response_data, w1) \<Rightarrow>
                (RedirectResponse (origin request @ ''/integrations/quickbooks/connected'')
                   [\<lparr>cookie_name = ''qb_auth_data'',
                     cookie_value =
                       AuthData (access_token response_data) (refresh_token response_data)
                         (expires_in response_data) (the realm),
                     httpOnly = True,
                     secure = (environment c = ''production''),
                     maxAge = 60 * 60 * 24 * 30,
                     path = ''/''\<rparr>],
                 w1)
            | (Inl failure, w1) \<Rightarrow>
                (let qbError = handleError (AxiosError failure)
                 in (RedirectResponse
                       (origin request @ ''/integrations/quickbooks/error'' @ ''?'' @
                        URLSearchParams_toString
                          [(''type'', type qbError), (''message'', message qbError)])
                       [],
                     w1))))"

section \<open>Sample inputs\<close>

text \<open>Three invoices of 100: nothing paid, all paid, and 60 paid.\<close>

definition sample_invoices :: jsval where
  "sample_invoices =
     JObj [(''QueryResponse'', JObj [(''Invoice'', JArr
       [JObj [(''Id'', JStr ''1''), (''TotalAmt'', JNum 100), (''Balance'', JNum 100)],
        JObj [(''Id'', JStr ''2''), (''TotalAmt'', JNum 100), (''Balance'', JNum 0)],
        JObj [(''Id'', JStr ''3''), (''TotalAmt'', JNum 100), (''Balance'', JNum 40)]])])]"

definition sample_invoice_records :: "jsval list" where
  "sample_invoice_records =
     [JObj [(''id'', JStr ''1''), (''customerId'', JUndefined), (''customerName'', JUndefined),
            (''date'', JUndefined), (''dueDate'', JUndefined), (''total'', JNum 100),
            (''balance'', JNum 100), (''status'', JStr ''Unpaid''), (''lineItems'', JArr [])],
      JObj [(''id'', JStr ''2''), (''customerId'', JUndefined), (''customerName'', JUndefined),
            (''date'', JUndefined), (''dueDate'', JUndefined), (''total'', JNum 100),
            (''balance'', JNum 0), (''status'', JStr ''Paid''), (''lineItems'', JArr [])],
      JObj [(''id'', JStr ''3''), (''customerId'', JUndefined), (''customerName'', JUndefined),
            (''date'', JUndefined), (''dueDate'', JUndefined), (''total'', JNum 100),
            (''balance'', JNum 40), (''status'', JStr ''Partial''), (''lineItems'', JArr [])]]"

text \<open>Two bills of 100: all paid, and 60 paid.\<close>

definition sample_bills :: jsval where
  "sample_bills =
     JObj [(''QueryResponse'', JObj [(''Bill'', JArr
       [JObj [(''Id'', JStr ''7''), (''TotalAmt'', JNum 100), (''Balance'', JNum 0)],
        JObj [(''Id'', JStr ''8''), (''TotalAmt'', JNum 100), (''Balance'', JNum 40)]])])]"

definition sample_bill_records :: "jsval list" where
  "sample_bill_records =
     [JObj [(''id'', JStr ''7''), (''vendorId'', JUndefined), (''vendorName'', JUndefined),
            (''date'', JUndefined), (''dueDate'', JUndefined), (''total'', JNum 100),
            (''balance'', JNum 0), (''status'', JStr ''Paid''), (''lineItems'', JArr [])],
      JObj [(''id'', JStr ''8''), (''vendorId'', JUndefined), (''vendorName'', JUndefined),
            (''date'', JUndefined), (''dueDate'', JUndefined), (''total'', JNum 100),
            (''balance'', JNum 40), (''status'', JStr ''Unpaid''), (''lineItems'', JArr [])]]"

text \<open>A query response that holds no collection at all.\<close>

definition empty_response :: jsval where
  "empty_response = JObj [(''QueryResponse'', JObj [])]"

text \<open>A configuration, a world in which nothing has happened, and a client whose token expires at a given instant.\<close>

definition sample_config :: qb_config where
  "sample_config = QB_CONFIG Map.empty"

definition world0 :: world where
  "world0 = \<lparr>now = 0, localStorage = Map.empty, sent = []\<rparr>"

definition sample_api :: "int \<Rightarrow> QuickBooksAPI" where
  "sample_api expires =
     \<lparr>accessToken = ''access-1'',
      refreshToken = ''refresh-1'',
      realmId = ''4620816365'',
      tokenExpiresAt = expires,
      baseUrl = ''https://sandbox-quickbooks.api.intuit.com/v3''\<rparr>"

text \<open>A vendor that answers every request, and one that cannot be reached.\<close>

definition steady_vendor :: vendor where
  "steady_vendor =
     \<lparr>get_answer = (\<lambda>history r. Inr empty_response),
      post_answer =
        (\<lambda>history r. Inr \<lparr>access_token = ''access-2'', refresh_token = None, expires_in = 3600\<rparr>),
      latency = (\<lambda>history r. 0)\<rparr>"

definition offline_vendor :: vendor where
  "offline_vendor =
     \<lparr>get_answer = (\<lambda>history r. Inl NetworkFailure),
      post_answer = (\<lambda>history r. Inl NetworkFailure),
      latency = (\<lambda>history r. 0)\<rparr>"

text \<open>A callback request that carries a code and a state, and no \<^verbatim>\<open>realmId\<close>.\<close>

definition callback_without_realm :: NextRequest where
  "callback_without_realm =
     \<lparr>origin = ''https://crm.example'', searchParams = [(''code'', ''abc''), (''state'', ''xyz'')]\<rparr>"

text \<open>
  Options that ask for the reports of the first months of 2024 and nothing else, and
  options that ask for accounts and customers.
\<close>

definition report_options :: SyncOptions where
  "report_options =
     \<lparr>syncAccounts = None, syncCustomers = None, syncInvoices = None, syncBills = None,
      syncPayments = None, syncReports = Some True,
      startDate = Some ''2024-01-01'', endDate = Some ''2024-06-01''\<rparr>"

definition two_categories :: SyncOptions where
  "two_categories =
     \<lparr>syncAccounts = Some True, syncCustomers = Some True, syncInvoices = None, syncBills = None,
      syncPayments = None, syncReports = None, startDate = None, endDate = None\<rparr>"

text \<open>A vendor that answers the first request it receives and fails every later one.\<close>

definition failing_after_first :: vendor where
  "failing_after_first =
     \<lparr>get_answer = (\<lambda>history r. if history = [] then Inr empty_response else Inl (HttpStatus 500)),
      post_answer = (\<lambda>history r. Inl NetworkFailure),
      latency = (\<lambda>history r. 0)\<rparr>"

section \<open>Notions the properties are stated with\<close>

text \<open>
  The filter the specification describes for \<^verbatim>\<open>getInvoices\<close>, \<^verbatim>\<open>getBills\<close> and
  \<^verbatim>\<open>getPayments\<close>, written from its words: both clauses joined by AND when both
  bounds are present, the one clause of the bound that is present, and no WHERE at all
  when neither is. The dates stand between single quotes.
\<close>

definition quoted :: "string \<Rightarrow> string" where
  "quoted s = [CHR 0x27] @ s @ [CHR 0x27]"

definition spec_filter :: "string option \<Rightarrow> string option \<Rightarrow> string" where
  "spec_filter lower upper =
     (if present lower \<and> present upper then
        '' WHERE TxnDate >= '' @ quoted (the lower) @ '' AND TxnDate <= '' @ quoted (the upper)
      else if present lower then '' WHERE TxnDate >= '' @ quoted (the lower)
      else if present upper then '' WHERE TxnDate <= '' @ quoted (the upper)
      else [])"

text \<open>A request to the token endpoint.\<close>

fun is_token_request :: "request \<Rightarrow> bool" where
  "is_token_request (POST url body headers) = (url = tokenUrl)"
| "is_token_request (GET url headers) = False"

text \<open>The five categories of records, the flag and the key of each, and the URL its fetch reads.\<close>

datatype category = Accounts | Customers | Invoices | Bills | Payments

fun category_flag :: "SyncOptions \<Rightarrow> category \<Rightarrow> bool option" where
  "category_flag options Accounts = syncAccounts options"
| "category_flag options Customers = syncCustomers options"
| "category_flag options Invoices = syncInvoices options"
| "category_flag options Bills = syncBills options"
| "category_flag options Payments = syncPayments options"

fun category_url :: "QuickBooksAPI \<Rightarrow> category \<Rightarrow> string" where
  "category_url api Accounts = companyUrl api @ ''/query?query=select * from Account''"
| "category_url api Customers = companyUrl api @ ''/query?query=select * from Customer''"
| "category_url api Invoices = queryUrl api ''select * from Invoice''"
| "category_url api Bills = queryUrl api ''select * from Bill''"
| "category_url api Payments = queryUrl api ''select * from Payment''"

fun category_key :: "category \<Rightarrow> string" where
  "category_key Accounts = ''accounts''"
| "category_key Customers = ''customers''"
| "category_key Invoices = ''invoices''"
| "category_key Bills = ''bills''"
| "category_key Payments = ''payments''"

fun category_method :: "category \<Rightarrow> string" where
  "category_method Accounts = ''getAccounts''"
| "category_method Customers = ''getCustomers''"
| "category_method Invoices = ''getInvoices''"
| "category_method Bills = ''getBills''"
| "category_method Payments = ''getPayments''"

fun category_process :: "category \<Rightarrow> jsval \<Rightarrow> thrown + jsval list" where
  "category_process Accounts = processAccounts"
| "category_process Customers = processCustomers"
| "category_process Invoices = processInvoices"
| "category_process Bills = processBills"
| "category_process Payments = processPayments"

text \<open>The block of a category, and the state \<^verbatim>\<open>syncData\<close> has reached when the block starts.\<close>

definition category_block ::
  "vendor \<Rightarrow> qb_config \<Rightarrow> SyncOptions \<Rightarrow> category
     \<Rightarrow> ((string \<times> jsval) list) outcome \<Rightarrow> ((string \<times> jsval) list) outcome" where
  "category_block v c options k =
     syncCategory v c (category_flag options k) (category_key k) (category_method k) (category_process k)"

fun blocks_before :: "category \<Rightarrow> category list" where
  "blocks_before Accounts = []"
| "blocks_before Customers = [Accounts]"
| "blocks_before Invoices = [Accounts, Customers]"
| "blocks_before Bills = [Accounts, Customers, Invoices]"
| "blocks_before Payments = [Accounts, Customers, Invoices, Bills]"

definition state_before ::
  "vendor \<Rightarrow> qb_config \<Rightarrow> SyncOptions \<Rightarrow> QuickBooksAPI \<Rightarrow> world \<Rightarrow> category
     \<Rightarrow> ((string \<times> jsval) list) outcome" where
  "state_before v c options api w k =
     foldl (\<lambda>st j. category_block v c options j st) (Inr [], api, w) (blocks_before k)"

definition after_categories ::
  "vendor \<Rightarrow> qb_config \<Rightarrow> SyncOptions \<Rightarrow> QuickBooksAPI \<Rightarrow> world \<Rightarrow> ((string \<times> jsval) list) outcome" where
  "after_categories v c options api w =
     category_block v c options Payments (state_before v c options api w Payments)"

text \<open>
  The requests a sync may send: one to the token endpoint, the unfiltered query of a
  category, or a report.
\<close>

definition is_report_url :: "QuickBooksAPI \<Rightarrow> string \<Rightarrow> bool" where
  "is_report_url api url =
     (take (length (companyUrl api @ ''/reports/'')) url = companyUrl api @ ''/reports/'')"

fun allowed_request :: "QuickBooksAPI \<Rightarrow> request \<Rightarrow> bool" where
  "allowed_request api (POST url body headers) = (url = tokenUrl)"
| "allowed_request api (GET url headers) =
     (url \<in> set (map (category_url api) [Accounts, Customers, Invoices, Bills, Payments])
      \<or> is_report_url api url)"

text \<open>
  What holds of every state a sync passes through, from the client and the world it
  started in: the company the client reads is the same, the stored snapshot is
  untouched, and the requests sent since are allowed ones.
\<close>

definition run_from :: "QuickBooksAPI \<Rightarrow> world \<Rightarrow> 'a outcome \<Rightarrow> bool" where
  "run_from api w st =
     (baseUrl (fst (snd st)) = baseUrl api \<and> realmId (fst (snd st)) = realmId api
      \<and> localStorage (snd (snd st)) ''quickbooks_data'' = localStorage w ''quickbooks_data''
      \<and> (\<exists>new. sent (snd (snd st)) = sent w @ new \<and> list_all (allowed_request api) new))"

section \<open>Normalisation: what the records hold\<close>

lemma map_throwing_member:
  "map_throwing f xs = Inr ys \<Longrightarrow> y \<in> set ys \<Longrightarrow> \<exists>x \<in> set xs. f x = Inr y"
  by (induction xs arbitrary: ys) (auto split: sum.splits)

lemma js_map_member:
  "js_map v f = Inr ys \<Longrightarrow> y \<in> set ys \<Longrightarrow> \<exists>x. f x = Inr y"
  by (auto simp: js_map_def split: jsval.splits dest: map_throwing_member)

lemma processInvoices_member:
  assumes "processInvoices payload = Inr records" and "r \<in> set records"
  shows "\<exists>invoice. invoiceRecord invoice = Inr r"
proof (cases "processInvoices payload
    = js_map (js_get (js_get payload ''QueryResponse'') ''Invoice'') invoiceRecord")
  case True
  with assms show ?thesis by (auto dest: js_map_member)
next
  case False
  then have "processInvoices payload = Inr []"
    by (simp add: processInvoices_def split: if_splits)
  with assms show ?thesis by simp
qed

lemma invoiceRecord_status:
  assumes "invoiceRecord invoice = Inr r"
  shows "js_get r ''status'' = JStr (getInvoiceStatus invoice)
       \<and> js_get r ''balance'' = js_get invoice ''Balance''
       \<and> js_get r ''total'' = js_get invoice ''TotalAmt''"
  using assms by (auto simp: invoiceRecord_def split: if_splits sum.splits)

text \<open>
  C2. Every record \<^verbatim>\<open>processInvoices\<close> returns has the status Paid exactly when its
  balance is 0, Unpaid exactly when its balance is its total and is not 0, and Partial
  exactly in every other case. Equality is that of \<^verbatim>\<open>===\<close>.
\<close>

theorem invoice_status_by_balance:
  assumes "processInvoices payload = Inr records" and "r \<in> set records"
  shows "(js_get r ''status'' = JStr ''Paid'' \<longleftrightarrow> strict_eq (js_get r ''balance'') (JNum 0))
       \<and> (js_get r ''status'' = JStr ''Unpaid'' \<longleftrightarrow>
            strict_eq (js_get r ''balance'') (js_get r ''total'')
            \<and> \<not> strict_eq (js_get r ''balance'') (JNum 0))
       \<and> (js_get r ''status'' = JStr ''Partial'' \<longleftrightarrow>
            \<not> strict_eq (js_get r ''balance'') (JNum 0)
            \<and> \<not> strict_eq (js_get r ''balance'') (js_get r ''total''))"
proof -
  from assms obtain invoice where "invoiceRecord invoice = Inr r"
    using processInvoices_member by blast
  then show ?thesis
    by (simp add: invoiceRecord_status getInvoiceStatus_def)
qed

theorem invoice_status_by_balance_witness:
  "processInvoices sample_invoices = Inr sample_invoice_records
   \<and> sample_invoice_records ! 2 \<in> set sample_invoice_records
   \<and> (js_get (sample_invoice_records ! 2) ''status'' = JStr ''Paid'' \<longleftrightarrow>
        strict_eq (js_get (sample_invoice_records ! 2) ''balance'') (JNum 0))
   \<and> (js_get (sample_invoice_records ! 2) ''status'' = JStr ''Unpaid'' \<longleftrightarrow>
        strict_eq (js_get (sample_invoice_records ! 2) ''balance'')
          (js_get (sample_invoice_records ! 2) ''total'')
        \<and> \<not> strict_eq (js_get (sample_invoice_records ! 2) ''balance'') (JNum 0))
   \<and> (js_get (sample_invoice_records ! 2) ''status'' = JStr ''Partial'' \<longleftrightarrow>
        \<not> strict_eq (js_get (sample_invoice_records ! 2) ''balance'') (JNum 0)
        \<and> \<not> strict_eq (js_get (sample_invoice_records ! 2) ''balance'')
            (js_get (sample_invoice_records ! 2) ''total''))"
proof -
  have run: "processInvoices sample_invoices = Inr sample_invoice_records"
    by (simp add: processInvoices_def sample_invoices_def sample_invoice_records_def js_map_def
        invoiceRecord_def getInvoiceStatus_def js_or_def optional_chain_def)
  have member: "sample_invoice_records ! 2 \<in> set sample_invoice_records"
    by (simp add: sample_invoice_records_def)
  from run member invoice_status_by_balance [OF run member] show ?thesis
    by blast
qed

lemma sample_invoice_statuses:
  "map (\<lambda>r. js_get r ''status'') sample_invoice_records
     = [JStr ''Unpaid'', JStr ''Paid'', JStr ''Partial'']"
  by (simp add: sample_invoice_records_def)

lemma processBills_member:
  assumes "processBills payload = Inr records" and "r \<in> set records"
  shows "\<exists>bill. billRecord bill = Inr r"
proof (cases "processBills payload
    = js_map (js_get (js_get payload ''QueryResponse'') ''Bill'') billRecord")
  case True
  with assms show ?thesis by (auto dest: js_map_member)
next
  case False
  then have "processBills payload = Inr []"
    by (simp add: processBills_def split: if_splits)
  with assms show ?thesis by simp
qed

lemma billRecord_status:
  assumes "billRecord bill = Inr r"
  shows "js_get r ''status''
           = JStr (if strict_eq (js_get bill ''Balance'') (JNum 0) then ''Paid'' else ''Unpaid'')
       \<and> js_get r ''balance'' = js_get bill ''Balance''"
  using assms by (auto simp: billRecord_def split: if_splits sum.splits)

text \<open>
  C3. Every record \<^verbatim>\<open>processBills\<close> returns has the status Paid exactly when its
  balance is 0 and Unpaid exactly in every other case; its status is never Partial.
\<close>

theorem bill_status_by_balance:
  assumes "processBills payload = Inr records" and "r \<in> set records"
  shows "(js_get r ''status'' = JStr ''Paid'' \<longleftrightarrow> strict_eq (js_get r ''balance'') (JNum 0))
       \<and> (js_get r ''status'' = JStr ''Unpaid'' \<longleftrightarrow> \<not> strict_eq (js_get r ''balance'') (JNum 0))
       \<and> js_get r ''status'' \<noteq> JStr ''Partial''"
proof -
  from assms obtain bill where "billRecord bill = Inr r"
    using processBills_member by blast
  then show ?thesis
    by (simp add: billRecord_status)
qed

theorem bill_status_by_balance_witness:
  "processBills sample_bills = Inr sample_bill_records
   \<and> sample_bill_records ! 1 \<in> set sample_bill_records
   \<and> (js_get (sample_bill_records ! 1) ''status'' = JStr ''Paid'' \<longleftrightarrow>
        strict_eq (js_get (sample_bill_records ! 1) ''balance'') (JNum 0))
   \<and> (js_get (sample_bill_records ! 1) ''status'' = JStr ''Unpaid'' \<longleftrightarrow>
        \<not> strict_eq (js_get (sample_bill_records ! 1) ''balance'') (JNum 0))
   \<and> js_get (sample_bill_records ! 1) ''status'' \<noteq> JStr ''Partial''"
proof -
  have run: "processBills sample_bills = Inr sample_bill_records"
    by (simp add: processBills_def sample_bills_def sample_bill_records_def js_map_def
        billRecord_def js_or_def optional_chain_def)
  have member: "sample_bill_records ! 1 \<in> set sample_bill_records"
    by (simp add: sample_bill_records_def)
  from run member bill_status_by_balance [OF run member] show ?thesis
    by blast
qed

lemma no_collection:
  assumes "missing_or_empty (vendor_collection k payload)"
  shows "\<not> truthy payload \<or> \<not> truthy (js_get payload ''QueryResponse'')
         \<or> \<not> truthy (js_get (js_get payload ''QueryResponse'') k)
         \<or> js_get (js_get payload ''QueryResponse'') k = JArr []"
  using assms
  by (auto simp: missing_or_empty_def vendor_collection_def split: jsval.splits option.splits)

text \<open>
  C7. For each of the five categories, a payload whose collection is missing, null or
  the empty array is normalised to the empty sequence: the function returns, and does
  not throw.
\<close>

theorem empty_collection_normalises_to_empty:
  "(missing_or_empty (vendor_collection ''Account'' payload) \<longrightarrow> processAccounts payload = Inr [])
 \<and> (missing_or_empty (vendor_collection ''Customer'' payload) \<longrightarrow> processCustomers payload = Inr [])
 \<and> (missing_or_empty (vendor_collection ''Invoice'' payload) \<longrightarrow> processInvoices payload = Inr [])
 \<and> (missing_or_empty (vendor_collection ''Bill'' payload) \<longrightarrow> processBills payload = Inr [])
 \<and> (missing_or_empty (vendor_collection ''Payment'' payload) \<longrightarrow> processPayments payload = Inr [])"
proof (intro conjI impI)
  assume "missing_or_empty (vendor_collection ''Account'' payload)"
  from no_collection [OF this] show "processAccounts payload = Inr []"
    by (auto simp: processAccounts_def js_map_def)
next
  assume "missing_or_empty (vendor_collection ''Customer'' payload)"
  from no_collection [OF this] show "processCustomers payload = Inr []"
    by (auto simp: processCustomers_def js_map_def)
next
  assume "missing_or_empty (vendor_collection ''Invoice'' payload)"
  from no_collection [OF this] show "processInvoices payload = Inr []"
    by (auto simp: processInvoices_def js_map_def)
next
  assume "missing_or_empty (vendor_collection ''Bill'' payload)"
  from no_collection [OF this] show "processBills payload = Inr []"
    by (auto simp: processBills_def js_map_def)
next
  assume "missing_or_empty (vendor_collection ''Payment'' payload)"
  from no_collection [OF this] show "processPayments payload = Inr []"
    by (auto simp: processPayments_def js_map_def)
qed

theorem empty_collection_normalises_to_empty_witness:
  "missing_or_empty (vendor_collection ''Account'' empty_response)
   \<and> missing_or_empty (vendor_collection ''Customer'' empty_response)
   \<and> missing_or_empty (vendor_collection ''Invoice'' empty_response)
   \<and> missing_or_empty (vendor_collection ''Bill'' empty_response)
   \<and> missing_or_empty (vendor_collection ''Payment'' empty_response)
   \<and> processAccounts empty_response = Inr []
   \<and> processCustomers empty_response = Inr []
   \<and> processInvoices empty_response = Inr []
   \<and> processBills empty_response = Inr []
   \<and> processPayments empty_response = Inr []"
proof -
  have missing: "missing_or_empty (vendor_collection k empty_response)" for k
    by (simp add: missing_or_empty_def vendor_collection_def empty_response_def)
  with empty_collection_normalises_to_empty [of empty_response] show ?thesis
    by blast
qed

lemma null_and_empty_collections:
  "processInvoices (JObj [(''QueryResponse'', JObj [(''Invoice'', JNull)])]) = Inr []"
  "processInvoices (JObj [(''QueryResponse'', JObj [(''Invoice'', JArr [])])]) = Inr []"
  "processInvoices JUndefined = Inr []"
  by (simp_all add: processInvoices_def js_map_def)

section \<open>The client: what a read method sends and leaves behind\<close>

text \<open>The three ways through the shared body of the read methods.\<close>

lemma ensured_get_valid:
  assumes "\<not> tokenExpiresAt api - 300000 \<le> now w"
  shows "ensured_get v c url api w =
     (map_sum AxiosError id (get_answer v (sent w) (GET (url api) (getHeaders api))), api,
      w\<lparr>now := now w + int (latency v (sent w) (GET (url api) (getHeaders api))),
        sent := sent w @ [GET (url api) (getHeaders api)]\<rparr>)"
  using assms
  by (simp add: ensured_get_def ensureValidToken_def axios_get_def split: sum.splits)

lemma ensured_get_refresh_failed:
  assumes "tokenExpiresAt api - 300000 \<le> now w"
    and "post_answer v (sent w) (refreshRequest c api) = Inl failure"
  shows "ensured_get v c url api w =
     (Inl (AxiosError failure), api,
      w\<lparr>now := now w + int (latency v (sent w) (refreshRequest c api)),
        sent := sent w @ [refreshRequest c api]\<rparr>)"
  using assms
  by (simp add: ensured_get_def ensureValidToken_def refreshAccessToken_def axios_post_def)

lemma ensured_get_refreshed:
  assumes "tokenExpiresAt api - 300000 \<le> now w"
    and "post_answer v (sent w) (refreshRequest c api) = Inr d"
  shows "\<exists>api1 w1.
     ensureValidToken v c api w = (Inr (), api1, w1) \<and>
     baseUrl api1 = baseUrl api \<and> realmId api1 = realmId api \<and>
     sent w1 = sent w @ [refreshRequest c api] \<and>
     (\<forall>k. k \<noteq> ''qb_auth_data'' \<longrightarrow> localStorage w1 k = localStorage w k) \<and>
     ensured_get v c url api w =
       (map_sum AxiosError id (get_answer v (sent w1) (GET (url api1) (getHeaders api1))), api1,
        w1\<lparr>now := now w1 + int (latency v (sent w1) (GET (url api1) (getHeaders api1))),
          sent := sent w1 @ [GET (url api1) (getHeaders api1)]\<rparr>)"
  using assms
  by (simp add: ensured_get_def ensureValidToken_def refreshAccessToken_def axios_post_def
      axios_get_def setItem_def Let_def split: sum.splits)

text \<open>Every method of the client is the shared body at the method's URL.\<close>

lemma method_is_ensured_get:
  assumes "map_of QuickBooksAPI_methods name = Some method"
  shows "\<exists>url. method v c args = ensured_get v c url"
  using assms
  by (auto simp: QuickBooksAPI_methods_def getCompanyInfo_def getAccounts_def getCustomers_def
      getInvoices_def getBills_def getPayments_def getProfitAndLossReport_def
      getBalanceSheetReport_def getCashFlowReport_def split: if_splits)

lemma call_api_is_ensured_get:
  assumes "map_of QuickBooksAPI_methods name \<noteq> None"
  shows "\<exists>url. call_api name args v c = ensured_get v c url"
proof -
  from assms obtain f where m: "map_of QuickBooksAPI_methods name = Some f"
    by blast
  from method_is_ensured_get [OF m] obtain url where "f v c args = ensured_get v c url"
    by blast
  with m have "call_api name args v c api w = ensured_get v c url api w" for api w
    by (simp add: call_api_def)
  then show ?thesis
    by blast
qed

subsection \<open>When the token is refreshed\<close>

lemma is_token_request_refreshRequest: "is_token_request (refreshRequest c api)"
  by (simp add: refreshRequest_def)

text \<open>
  With less than five minutes left the method sends the refresh request once, first,
  and after it nothing but its own request; with more than five minutes left it sends
  its own request only.
\<close>

lemma near_expiry_refreshes_once:
  assumes "map_of QuickBooksAPI_methods name \<noteq> None"
    and "tokenExpiresAt api - now w < 300000"
  shows "\<exists>rest. sent (snd (snd (call_api name args v c api w))) = sent w @ refreshRequest c api # rest
           \<and> filter is_token_request rest = []
           \<and> (post_answer v (sent w) (refreshRequest c api) = Inl failure \<longrightarrow> rest = [])
           \<and> (post_answer v (sent w) (refreshRequest c api) = Inr d \<longrightarrow> length rest = 1)"
proof -
  from call_api_is_ensured_get [OF assms(1)] obtain url
    where url: "call_api name args v c = ensured_get v c url"
    by blast
  from assms(2) have near: "tokenExpiresAt api - 300000 \<le> now w"
    by simp
  show ?thesis
  proof (cases "post_answer v (sent w) (refreshRequest c api)")
    case (Inl f)
    from ensured_get_refresh_failed [OF near Inl] show ?thesis
      by (simp add: url Inl)
  next
    case (Inr d')
    from ensured_get_refreshed [OF near Inr, of url] show ?thesis
      by (auto simp: url Inr)
  qed
qed

lemma valid_token_no_refresh:
  assumes "map_of QuickBooksAPI_methods name \<noteq> None"
    and "tokenExpiresAt api - now w > 300000"
  shows "\<exists>url. sent (snd (snd (call_api name args v c api w)))
           = sent w @ [GET url (getHeaders api)]"
proof -
  from call_api_is_ensured_get [OF assms(1)] obtain url
    where url: "call_api name args v c = ensured_get v c url"
    by blast
  from assms(2) have "\<not> tokenExpiresAt api - 300000 \<le> now w"
    by simp
  from ensured_get_valid [OF this] show ?thesis
    by (simp add: url)
qed

text \<open>
  C4. The claim sets the line at five minutes exactly: a refresh when less than
  300000 ms are left, none when 300000 ms or more are. With exactly 300000 ms left,
  \<^verbatim>\<open>getAccounts\<close> sends the refresh request, and then its own.
\<close>

theorem refresh_at_exactly_five_minutes:
  "tokenExpiresAt (sample_api 300000) - now world0 = 300000
   \<and> map is_token_request
       (sent (snd (snd (getAccounts steady_vendor sample_config (sample_api 300000) world0))))
     = [True, False]
   \<and> hd (sent (snd (snd (getAccounts steady_vendor sample_config (sample_api 300000) world0))))
     = refreshRequest sample_config (sample_api 300000)"
proof -
  have left: "tokenExpiresAt (sample_api 300000) - now world0 = 300000"
    by (simp add: sample_api_def world0_def)
  then have near: "tokenExpiresAt (sample_api 300000) - 300000 \<le> now world0"
    by simp
  have answer: "post_answer steady_vendor (sent world0) (refreshRequest sample_config (sample_api 300000))
      = Inr \<lparr>access_token = ''access-2'', refresh_token = None, expires_in = 3600\<rparr>"
    by (simp add: steady_vendor_def)
  from ensured_get_refreshed [OF near answer,
      of "\<lambda>api. companyUrl api @ ''/query?query=select * from Account''"]
  obtain url headers
    where "sent (snd (snd (getAccounts steady_vendor sample_config (sample_api 300000) world0)))
      = sent world0 @ [refreshRequest sample_config (sample_api 300000), GET url headers]"
    by (auto simp: getAccounts_def)
  then have "sent (snd (snd (getAccounts steady_vendor sample_config (sample_api 300000) world0)))
      = [refreshRequest sample_config (sample_api 300000), GET url headers]"
    by (simp add: world0_def)
  with left show ?thesis
    by (simp add: is_token_request_refreshRequest)
qed

subsection \<open>When the refresh fails\<close>

text \<open>
  With the token endpoint out of reach and the token expired, \<^verbatim>\<open>getAccounts\<close> sends
  the refresh request, leaves the client as it was and throws the network failure
  itself, whose class is Connection, not Authentication.
\<close>

theorem failed_refresh_counterexample:
  "tokenExpiresAt (sample_api 0) - now world0 < 300000
   \<and> post_answer offline_vendor (sent world0) (refreshRequest sample_config (sample_api 0))
       = Inl NetworkFailure
   \<and> getAccounts offline_vendor sample_config (sample_api 0) world0
       = (Inl (AxiosError NetworkFailure), sample_api 0,
          world0\<lparr>sent := [refreshRequest sample_config (sample_api 0)]\<rparr>)
   \<and> errorClass (AxiosError NetworkFailure) \<noteq> Authentication"
proof -
  have near: "tokenExpiresAt (sample_api 0) - 300000 \<le> now world0"
    by (simp add: sample_api_def world0_def)
  have answer: "post_answer offline_vendor (sent world0) (refreshRequest sample_config (sample_api 0))
      = Inl NetworkFailure"
    by (simp add: offline_vendor_def)
  from ensured_get_refresh_failed [OF near answer] show ?thesis
    by (simp add: getAccounts_def answer) (simp add: sample_api_def world0_def offline_vendor_def)
qed

text \<open>
  C5, amended. When the refresh request fails, every method of the client leaves the
  credential bundle exactly as it was and throws the very error the request failed
  with, whatever its class; nothing is written to the store. \<^verbatim>\<open>testConnection\<close>
  returns that error as \<^verbatim>\<open>handleQuickBooksError\<close> classifies it.
\<close>

theorem failed_refresh_rethrown:
  assumes "map_of QuickBooksAPI_methods name \<noteq> None"
    and "tokenExpiresAt api - 300000 \<le> now w"
    and "post_answer v (sent w) (refreshRequest c api) = Inl failure"
  shows "fst (call_api name args v c api w) = Inl (AxiosError failure)
       \<and> fst (snd (call_api name args v c api w)) = api
       \<and> localStorage (snd (snd (call_api name args v c api w))) = localStorage w
       \<and> fst (testConnection handleError v c api w) = NotConnected (handleError (AxiosError failure))
       \<and> fst (snd (testConnection handleError v c api w)) = api"
proof -
  from call_api_is_ensured_get [OF assms(1)] obtain url
    where url: "call_api name args v c = ensured_get v c url"
    by blast
  show ?thesis
    by (simp add: url testConnection_def getCompanyInfo_def
        ensured_get_refresh_failed [OF assms(2) assms(3)])
qed

theorem failed_refresh_rethrown_witness:
  "map_of QuickBooksAPI_methods ''getInvoices'' \<noteq> None
   \<and> tokenExpiresAt (sample_api 0) - 300000 \<le> now world0
   \<and> post_answer offline_vendor (sent world0) (refreshRequest sample_config (sample_api 0))
       = Inl NetworkFailure
   \<and> fst (call_api ''getInvoices'' [] offline_vendor sample_config (sample_api 0) world0)
       = Inl (AxiosError NetworkFailure)
   \<and> fst (snd (call_api ''getInvoices'' [] offline_vendor sample_config (sample_api 0) world0))
       = sample_api 0
   \<and> localStorage (snd (snd (call_api ''getInvoices'' [] offline_vendor sample_config (sample_api 0) world0)))
       = localStorage world0"
proof -
  have known: "map_of QuickBooksAPI_methods ''getInvoices'' \<noteq> None"
    by (simp add: QuickBooksAPI_methods_def)
  have near: "tokenExpiresAt (sample_api 0) - 300000 \<le> now world0"
    by (simp add: sample_api_def world0_def)
  have answer: "post_answer offline_vendor (sent world0) (refreshRequest sample_config (sample_api 0))
      = Inl NetworkFailure"
    by (simp add: offline_vendor_def)
  from known near answer
    failed_refresh_rethrown [OF known near answer, of "[]" "\<lambda>e. \<lparr>type = [], message = []\<rparr>"]
  show ?thesis
    by blast
qed

subsection \<open>The query of the transaction methods\<close>

lemma dateRangeQuery_spec: "dateRangeQuery select lower upper = select @ spec_filter lower upper"
  by (cases lower; cases upper) (auto simp: dateRangeQuery_def spec_filter_def quoted_def Let_def)

lemma ensured_get_request:
  assumes "ensureValidToken v c api w = (Inr u, api1, w1)"
  shows "sent (snd (snd (ensured_get v c url api w))) = sent w1 @ [GET (url api1) (getHeaders api1)]"
  using assms by (simp add: ensured_get_def axios_get_def split: sum.splits)

text \<open>
  C8. Once the token is ensured, \<^verbatim>\<open>getInvoices\<close>, \<^verbatim>\<open>getBills\<close> and \<^verbatim>\<open>getPayments\<close>
  each send one request, whose query is the select statement followed by the filter of
  the specification: both clauses joined by AND, the one clause of the bound that is
  present, or no WHERE at all. A bound is present when it is a non-empty string.
\<close>

theorem transaction_query_filter:
  assumes "ensureValidToken v c api w = (Inr u, api1, w1)"
  shows "sent (snd (snd (getInvoices v c lower upper api w)))
           = sent w1 @ [GET (queryUrl api1 (''select * from Invoice'' @ spec_filter lower upper))
                          (getHeaders api1)]
       \<and> sent (snd (snd (getBills v c lower upper api w)))
           = sent w1 @ [GET (queryUrl api1 (''select * from Bill'' @ spec_filter lower upper))
                          (getHeaders api1)]
       \<and> sent (snd (snd (getPayments v c lower upper api w)))
           = sent w1 @ [GET (queryUrl api1 (''select * from Payment'' @ spec_filter lower upper))
                          (getHeaders api1)]"
  by (simp add: getInvoices_def getBills_def getPayments_def dateRangeQuery_spec
      ensured_get_request [OF assms])

theorem transaction_query_filter_witness:
  "ensureValidToken steady_vendor sample_config (sample_api 3600000) world0
     = (Inr (), sample_api 3600000, world0)
   \<and> sent (snd (snd (getInvoices steady_vendor sample_config (Some ''2024-01-01'') (Some ''2024-06-01'')
                        (sample_api 3600000) world0)))
     = sent world0 @
       [GET (queryUrl (sample_api 3600000)
               (''select * from Invoice'' @ spec_filter (Some ''2024-01-01'') (Some ''2024-06-01'')))
            (getHeaders (sample_api 3600000))]
   \<and> sent (snd (snd (getBills steady_vendor sample_config (Some ''2024-01-01'') (Some ''2024-06-01'')
                        (sample_api 3600000) world0)))
     = sent world0 @
       [GET (queryUrl (sample_api 3600000)
               (''select * from Bill'' @ spec_filter (Some ''2024-01-01'') (Some ''2024-06-01'')))
            (getHeaders (sample_api 3600000))]
   \<and> sent (snd (snd (getPayments steady_vendor sample_config (Some ''2024-01-01'') (Some ''2024-06-01'')
                        (sample_api 3600000) world0)))
     = sent world0 @
       [GET (queryUrl (sample_api 3600000)
               (''select * from Payment'' @ spec_filter (Some ''2024-01-01'') (Some ''2024-06-01'')))
            (getHeaders (sample_api 3600000))]"
proof -
  have valid: "ensureValidToken steady_vendor sample_config (sample_api 3600000) world0
      = (Inr (), sample_api 3600000, world0)"
    by (simp add: ensureValidToken_def sample_api_def world0_def)
  from valid transaction_query_filter [OF valid, of "Some ''2024-01-01''" "Some ''2024-06-01''"]
  show ?thesis
    by blast
qed

lemma spec_filter_samples:
  "spec_filter (Some ''2024-01-01'') (Some ''2024-06-01'')
     = '' WHERE TxnDate >= '' @ quoted ''2024-01-01'' @ '' AND TxnDate <= '' @ quoted ''2024-06-01''"
  "spec_filter (Some ''2024-01-01'') None = '' WHERE TxnDate >= '' @ quoted ''2024-01-01''"
  "spec_filter None (Some ''2024-06-01'') = '' WHERE TxnDate <= '' @ quoted ''2024-06-01''"
  "spec_filter None None = []"
  "spec_filter (Some []) (Some ''2024-06-01'') = '' WHERE TxnDate <= '' @ quoted ''2024-06-01''"
  by (simp_all add: spec_filter_def)

section \<open>The OAuth callback\<close>

text \<open>
  C9. A callback request that lacks \<^verbatim>\<open>code\<close>, \<^verbatim>\<open>state\<close> or \<^verbatim>\<open>realmId\<close> (or carries
  it empty) is answered with status 400, and the world is left as it was: no request
  has been sent to the token endpoint.
\<close>

theorem callback_missing_parameter:
  assumes "\<not> present (map_of (searchParams request) ''code'')
         \<or> \<not> present (map_of (searchParams request) ''state'')
         \<or> \<not> present (map_of (searchParams request) ''realmId'')"
  shows "GET_callback handleError v c request w
           = (JsonResponse (JObj [(''error'', JStr ''Missing required parameters'')]) 400, w)
       \<and> sent (snd (GET_callback handleError v c request w)) = sent w"
  using assms by (auto simp: GET_callback_def Let_def)

theorem callback_missing_parameter_witness:
  "map_of (searchParams callback_without_realm) ''realmId'' = None
   \<and> GET_callback (\<lambda>e. \<lparr>type = [], message = []\<rparr>) steady_vendor sample_config
       callback_without_realm world0
     = (JsonResponse (JObj [(''error'', JStr ''Missing required parameters'')]) 400, world0)
   \<and> sent (snd (GET_callback (\<lambda>e. \<lparr>type = [], message = []\<rparr>) steady_vendor sample_config
       callback_without_realm world0)) = sent world0"
proof -
  have missing: "map_of (searchParams callback_without_realm) ''realmId'' = None"
    by (simp add: callback_without_realm_def)
  then have "\<not> present (map_of (searchParams callback_without_realm) ''code'')
         \<or> \<not> present (map_of (searchParams callback_without_realm) ''state'')
         \<or> \<not> present (map_of (searchParams callback_without_realm) ''realmId'')"
    by simp
  from missing callback_missing_parameter [OF this] show ?thesis
    by blast
qed

text \<open>With the three parameters the handler does send the exchange request, once.\<close>

lemma callback_exchanges_code:
  assumes "map_of (searchParams request) ''code'' = Some code" and "code \<noteq> []"
    and "present (map_of (searchParams request) ''state'')"
    and "present (map_of (searchParams request) ''realmId'')"
  shows "sent (snd (GET_callback handleError v c request w)) = sent w @ [exchangeRequest c code]"
  using assms
  by (auto simp: GET_callback_def Let_def axios_post_def split: sum.splits prod.splits)

section \<open>The orchestrator: what holds all along a sync\<close>

lemma run_from_refl: "run_from api w (r, api, w)"
  by (simp add: run_from_def)

lemma allowed_refreshRequest: "allowed_request api (refreshRequest c api1)"
  by (simp add: refreshRequest_def)

lemma run_from_ensured_get:
  assumes "run_from api w (r0, api1, w1)"
    and "\<And>a h. baseUrl a = baseUrl api \<Longrightarrow> realmId a = realmId api \<Longrightarrow> allowed_request api (GET (url a) h)"
  shows "run_from api w (ensured_get v c url api1 w1)"
proof (cases "tokenExpiresAt api1 - 300000 \<le> now w1")
  case False
  from assms show ?thesis
    by (auto simp: ensured_get_valid [OF False] run_from_def)
next
  case near: True
  show ?thesis
  proof (cases "post_answer v (sent w1) (refreshRequest c api1)")
    case (Inl failure)
    from assms(1) show ?thesis
      by (auto simp: ensured_get_refresh_failed [OF near Inl] run_from_def allowed_refreshRequest)
  next
    case (Inr d)
    from ensured_get_refreshed [OF near Inr, of url] obtain api2 w2 where
      "baseUrl api2 = baseUrl api1" "realmId api2 = realmId api1"
      "sent w2 = sent w1 @ [refreshRequest c api1]"
      "\<forall>k. k \<noteq> ''qb_auth_data'' \<longrightarrow> localStorage w2 k = localStorage w1 k"
      "ensured_get v c url api1 w1 =
       (map_sum AxiosError id (get_answer v (sent w2) (GET (url api2) (getHeaders api2))), api2,
        w2\<lparr>now := now w2 + int (latency v (sent w2) (GET (url api2) (getHeaders api2))),
          sent := sent w2 @ [GET (url api2) (getHeaders api2)]\<rparr>)"
      by blast
    with assms show ?thesis
      by (auto simp: run_from_def allowed_refreshRequest)
  qed
qed

lemma category_fetch:
  "call_api (category_method k) [] v c = ensured_get v c (\<lambda>api. category_url api k)"
  by (cases k)
    (auto simp: call_api_def QuickBooksAPI_methods_def getAccounts_def getCustomers_def
      getInvoices_def getBills_def getPayments_def dateRangeQuery_def fun_eq_iff)

lemma category_url_same:
  "baseUrl a = baseUrl api \<Longrightarrow> realmId a = realmId api \<Longrightarrow> category_url a k = category_url api k"
  by (cases k) (simp_all add: companyUrl_def queryUrl_def)

lemma companyUrl_same:
  "baseUrl a = baseUrl api \<Longrightarrow> realmId a = realmId api \<Longrightarrow> companyUrl a = companyUrl api"
  by (simp add: companyUrl_def)

lemma allowed_own_category_url: "allowed_request api (GET (category_url api k) h)"
  by (cases k) simp_all

lemma allowed_category_url:
  "baseUrl a = baseUrl api \<Longrightarrow> realmId a = realmId api \<Longrightarrow> allowed_request api (GET (category_url a k) h)"
  by (simp only: category_url_same [of a api k] allowed_own_category_url)

lemma report_prefix: "is_report_url api (companyUrl api @ ''/reports/'' @ rest)"
  by (simp add: is_report_url_def)

lemma allowed_report_url:
  assumes "baseUrl a = baseUrl api" and "realmId a = realmId api"
  shows "allowed_request api (GET (companyUrl a @ ''/reports/ProfitAndLoss?start_date='' @ rest) h)"
proof -
  have "is_report_url api (companyUrl api @ ''/reports/'' @ (''ProfitAndLoss?start_date='' @ rest))"
    by (rule report_prefix)
  then show ?thesis
    by (simp add: companyUrl_same [OF assms])
qed

lemma run_from_category_block:
  assumes "run_from api w st"
  shows "run_from api w (category_block v c options k st)"
proof (cases st)
  case (fields r api1 w1)
  show ?thesis
  proof (cases r)
    case (Inl e)
    with assms fields show ?thesis
      by (simp add: category_block_def syncCategory_def)
  next
    case (Inr results)
    from assms fields have "run_from api w (r, api1, w1)"
      by simp
    then have "run_from api w (ensured_get v c (\<lambda>a. category_url a k) api1 w1)"
      by (rule run_from_ensured_get) (rule allowed_category_url, assumption+)
    with assms fields Inr show ?thesis
      by (auto simp: category_block_def syncCategory_def category_fetch run_from_def
          split: prod.splits sum.splits)
  qed
qed

lemma run_from_state_before: "run_from api w (state_before v c options api w k)"
proof -
  have "run_from api w st \<Longrightarrow> run_from api w (foldl (\<lambda>st j. category_block v c options j st) st ks)" for st ks
    by (induction ks arbitrary: st) (simp_all add: run_from_category_block)
  then show ?thesis
    by (simp add: state_before_def run_from_refl)
qed

lemma run_from_after_categories: "run_from api w (after_categories v c options api w)"
  by (simp add: after_categories_def run_from_category_block run_from_state_before)

lemma missing_methods:
  "call_api ''getBalanceSheet'' args v c api w
     = (Inl (TypeError ''this.api.getBalanceSheet is not a function''), api, w)"
  "call_api ''getCashFlowStatement'' args v c api w
     = (Inl (TypeError ''this.api.getCashFlowStatement is not a function''), api, w)"
  by (simp_all add: call_api_def QuickBooksAPI_methods_def)

lemma profit_and_loss_fetch:
  "call_api ''getProfitAndLossReport'' [lower, upper] v c
     = ensured_get v c
         (\<lambda>api. companyUrl api @ ''/reports/ProfitAndLoss?start_date='' @ interpolate lower
                @ ''&end_date='' @ interpolate upper)"
  by (auto simp: call_api_def QuickBooksAPI_methods_def getProfitAndLossReport_def fun_eq_iff)

lemma run_from_syncReportsBlock:
  assumes "run_from api w st"
  shows "run_from api w (syncReportsBlock v c options st)"
proof (cases st)
  case (fields r api1 w1)
  show ?thesis
  proof (cases r)
    case (Inl e)
    with assms fields show ?thesis
      by (simp add: syncReportsBlock_def)
  next
    case (Inr results)
    from assms fields have "run_from api w (r, api1, w1)"
      by simp
    then have "run_from api w (ensured_get v c
         (\<lambda>a. companyUrl a @ ''/reports/ProfitAndLoss?start_date='' @ interpolate (startDate options)
                @ ''&end_date='' @ interpolate (endDate options)) api1 w1)"
      by (rule run_from_ensured_get) (rule allowed_report_url, assumption+)
    with assms fields Inr show ?thesis
      by (auto simp: syncReportsBlock_def profit_and_loss_fetch missing_methods run_from_def
          split: prod.splits sum.splits)
  qed
qed

lemma syncBody_blocks:
  "syncBody v c options api w =
     (case syncReportsBlock v c options (after_categories v c options api w) of
        (Inl e, api1, w1) \<Rightarrow> (Inl e, api1, w1)
      | (Inr results, api1, w1) \<Rightarrow> (Inr results, api1, storeData results w1))"
  by (simp add: syncBody_def after_categories_def state_before_def category_block_def)

section \<open>The orchestrator: failure, reports and the date range\<close>

lemma category_block_failed: "isl (fst st) \<Longrightarrow> category_block v c options k st = st"
  by (cases st) (auto simp: category_block_def syncCategory_def isl_def)

lemma syncReportsBlock_failed: "isl (fst st) \<Longrightarrow> syncReportsBlock v c options st = st"
  by (cases st) (auto simp: syncReportsBlock_def isl_def)

lemma syncReportsBlock_Inl: "syncReportsBlock v c options (Inl e, api, w) = (Inl e, api, w)"
  by (simp add: syncReportsBlock_def)

lemma after_categories_failed:
  assumes "isl (fst (category_block v c options k (state_before v c options api w k)))"
  shows "isl (fst (after_categories v c options api w))"
  using assms
  by (cases k) (simp_all add: after_categories_def state_before_def category_block_failed)

lemma failed_sync:
  assumes "isl (fst (after_categories v c options api w))"
  shows "fst (syncData v c options api w)
           = \<lparr>success = False, data = None, error = Some ''Failed to sync data from QuickBooks''\<rparr>
       \<and> localStorage (snd (snd (syncData v c options api w))) ''quickbooks_data''
           = localStorage w ''quickbooks_data''"
proof -
  have "run_from api w (after_categories v c options api w)"
    by (rule run_from_after_categories)
  with assms show ?thesis
    by (cases "after_categories v c options api w")
      (auto simp: syncData_def syncBody_blocks syncReportsBlock_Inl run_from_def isl_def)
qed

lemma valid_sample: "\<not> tokenExpiresAt (sample_api 3600000) - 300000 \<le> now world0"
  by (simp add: sample_api_def world0_def)

lemma accounts_then_customers:
  "state_before failing_after_first sample_config two_categories (sample_api 3600000) world0 Customers
     = (Inr [(''accounts'', JArr [])], sample_api 3600000,
        world0\<lparr>sent := [GET (category_url (sample_api 3600000) Accounts) (getHeaders (sample_api 3600000))]\<rparr>)"
proof -
  have fetch: "call_api ''getAccounts'' [] failing_after_first sample_config (sample_api 3600000) world0
      = (Inr empty_response, sample_api 3600000,
         world0\<lparr>sent := [GET (category_url (sample_api 3600000) Accounts) (getHeaders (sample_api 3600000))]\<rparr>)"
    using category_fetch [of Accounts failing_after_first sample_config]
    by (simp add: ensured_get_valid [OF valid_sample])
       (simp add: failing_after_first_def world0_def)
  have "processAccounts empty_response = Inr []"
    by (simp add: processAccounts_def empty_response_def)
  with fetch show ?thesis
    by (simp add: state_before_def category_block_def syncCategory_def two_categories_def)
qed

text \<open>
  C6. When the fetch of an enabled category throws, in the state the sync has reached
  when the block of that category starts, \<^verbatim>\<open>syncData\<close> returns the failure result, which
  holds the fixed message and no data (the records of the categories fetched before are
  dropped), and the stored snapshot \<^verbatim>\<open>quickbooks_data\<close> is what it was.
\<close>

theorem failed_fetch_fails_sync:
  assumes "enabled (category_flag options k)"
    and "state_before v c options api w k = (Inr results, api1, w1)"
    and "fst (call_api (category_method k) [] v c api1 w1) = Inl e"
  shows "fst (syncData v c options api w)
           = \<lparr>success = False, data = None, error = Some ''Failed to sync data from QuickBooks''\<rparr>
       \<and> localStorage (snd (snd (syncData v c options api w))) ''quickbooks_data''
           = localStorage w ''quickbooks_data''"
proof -
  from assms have "isl (fst (category_block v c options k (state_before v c options api w k)))"
    by (cases "call_api (category_method k) [] v c api1 w1")
      (simp add: category_block_def syncCategory_def)
  then have "isl (fst (after_categories v c options api w))"
    by (rule after_categories_failed)
  then show ?thesis
    by (rule failed_sync)
qed

theorem failed_fetch_fails_sync_witness:
  "enabled (category_flag two_categories Customers)
   \<and> fst (state_before failing_after_first sample_config two_categories (sample_api 3600000) world0 Customers)
       = Inr [(''accounts'', JArr [])]
   \<and> fst (call_api (category_method Customers) [] failing_after_first sample_config (sample_api 3600000)
            (snd (snd (state_before failing_after_first sample_config two_categories
                         (sample_api 3600000) world0 Customers))))
       = Inl (AxiosError (HttpStatus 500))
   \<and> fst (syncData failing_after_first sample_config two_categories (sample_api 3600000) world0)
       = \<lparr>success = False, data = None, error = Some ''Failed to sync data from QuickBooks''\<rparr>
   \<and> localStorage (snd (snd (syncData failing_after_first sample_config two_categories
                                 (sample_api 3600000) world0))) ''quickbooks_data''
       = localStorage world0 ''quickbooks_data''"
proof -
  let ?w1 = "world0\<lparr>sent := [GET (category_url (sample_api 3600000) Accounts) (getHeaders (sample_api 3600000))]\<rparr>"
  have flag: "enabled (category_flag two_categories Customers)"
    by (simp add: two_categories_def)
  have valid: "\<not> tokenExpiresAt (sample_api 3600000) - 300000 \<le> now ?w1"
    by (simp add: sample_api_def world0_def)
  have fetch: "fst (call_api (category_method Customers) [] failing_after_first sample_config
                 (sample_api 3600000) ?w1) = Inl (AxiosError (HttpStatus 500))"
    by (subst category_fetch, subst ensured_get_valid [OF valid])
       (simp add: failing_after_first_def)
  from flag fetch accounts_then_customers
    failed_fetch_fails_sync [OF flag accounts_then_customers fetch]
  show ?thesis
    by simp
qed

subsection \<open>The reports\<close>

text \<open>
  \<^verbatim>\<open>syncData\<close> asks the client for \<^verbatim>\<open>getBalanceSheet\<close> and \<^verbatim>\<open>getCashFlowStatement\<close>;
  the methods the class defines are \<^verbatim>\<open>getBalanceSheetReport\<close> and \<^verbatim>\<open>getCashFlowReport\<close>.
  So the block of the reports throws whenever it runs. It does not run, and sends
  nothing, when the flag is off or a date is missing or empty.
\<close>

lemma reports_block_always_fails:
  assumes "enabled (syncReports options)" and "present (startDate options)" and "present (endDate options)"
  shows "isl (fst (syncReportsBlock v c options st))"
  using assms
  by (cases st) (auto simp: syncReportsBlock_def missing_methods split: sum.splits prod.splits)

lemma no_report_call_without_dates:
  assumes "\<not> present (startDate options) \<or> \<not> present (endDate options) \<or> \<not> enabled (syncReports options)"
  shows "syncReportsBlock v c options st = st"
  using assms
  by (cases st) (auto simp: syncReportsBlock_def split: sum.splits)

lemma failed_reports_fail_sync:
  assumes "isl (fst (syncReportsBlock v c options (after_categories v c options api w)))"
  shows "fst (syncData v c options api w)
           = \<lparr>success = False, data = None, error = Some ''Failed to sync data from QuickBooks''\<rparr>
       \<and> localStorage (snd (snd (syncData v c options api w))) ''quickbooks_data''
           = localStorage w ''quickbooks_data''"
proof -
  have "run_from api w (syncReportsBlock v c options (after_categories v c options api w))"
    by (rule run_from_syncReportsBlock) (rule run_from_after_categories)
  with assms show ?thesis
    by (cases "syncReportsBlock v c options (after_categories v c options api w)")
      (auto simp: syncData_def syncBody_blocks run_from_def isl_def)
qed

lemma no_categories: "after_categories v c report_options api w = (Inr [], api, w)"
  by (simp add: after_categories_def state_before_def category_block_def syncCategory_def
      report_options_def)

text \<open>
  C1. The claim has the three reports fetched and stored when the flag is set and both
  dates are present. On such options, with a vendor that answers every request,
  \<^verbatim>\<open>syncData\<close> sends the profit-and-loss request and nothing after it, returns the failure
  result and stores nothing: \<^verbatim>\<open>getBalanceSheet\<close> is not a method of the client.
\<close>

theorem reports_sync_fails_on_missing_method:
  "fst (syncData steady_vendor sample_config report_options (sample_api 3600000) world0)
     = \<lparr>success = False, data = None, error = Some ''Failed to sync data from QuickBooks''\<rparr>
   \<and> sent (snd (snd (syncData steady_vendor sample_config report_options (sample_api 3600000) world0)))
     = [GET (companyUrl (sample_api 3600000)
              @ ''/reports/ProfitAndLoss?start_date=2024-01-01&end_date=2024-06-01'')
            (getHeaders (sample_api 3600000))]
   \<and> localStorage (snd (snd (syncData steady_vendor sample_config report_options
                                 (sample_api 3600000) world0))) ''quickbooks_data'' = None
   \<and> map_of QuickBooksAPI_methods ''getBalanceSheet'' = None
   \<and> map_of QuickBooksAPI_methods ''getCashFlowStatement'' = None"
proof -
  have fetch: "call_api ''getProfitAndLossReport'' [Some ''2024-01-01'', Some ''2024-06-01'']
        steady_vendor sample_config (sample_api 3600000) world0
      = (Inr empty_response, sample_api 3600000,
         world0\<lparr>sent := [GET (companyUrl (sample_api 3600000)
              @ ''/reports/ProfitAndLoss?start_date=2024-01-01&end_date=2024-06-01'')
            (getHeaders (sample_api 3600000))]\<rparr>)"
    by (simp add: profit_and_loss_fetch ensured_get_valid [OF valid_sample])
       (simp add: steady_vendor_def world0_def)
  have block: "syncReportsBlock steady_vendor sample_config report_options
        (Inr [], sample_api 3600000, world0)
      = (Inl (TypeError ''this.api.getBalanceSheet is not a function''), sample_api 3600000,
         world0\<lparr>sent := [GET (companyUrl (sample_api 3600000)
              @ ''/reports/ProfitAndLoss?start_date=2024-01-01&end_date=2024-06-01'')
            (getHeaders (sample_api 3600000))]\<rparr>)"
    using fetch by (simp add: syncReportsBlock_def report_options_def missing_methods)
  have missing: "map_of QuickBooksAPI_methods ''getBalanceSheet'' = None
      \<and> map_of QuickBooksAPI_methods ''getCashFlowStatement'' = None"
    by (simp add: QuickBooksAPI_methods_def)
  show ?thesis
    using missing by (simp add: syncData_def syncBody_blocks no_categories block) (simp add: world0_def)
qed

subsection \<open>The date range\<close>

text \<open>
  C10. Every request a sync sends is one to the token endpoint, the query of a category
  as \<^verbatim>\<open>getInvoices()\<close>, \<^verbatim>\<open>getBills()\<close> and \<^verbatim>\<open>getPayments()\<close> build it with no
  argument, which has no WHERE clause, or a report; and the state the five category
  blocks leave is the same whatever the start and end dates of the options are.
\<close>

theorem sync_sends_unfiltered_queries:
  "(\<exists>new. sent (snd (snd (syncData v c options api w))) = sent w @ new
          \<and> list_all (allowed_request api) new)
   \<and> after_categories v c (options\<lparr>startDate := lower, endDate := upper\<rparr>) api w
       = after_categories v c options api w"
proof
  have "run_from api w (syncReportsBlock v c options (after_categories v c options api w))"
    by (rule run_from_syncReportsBlock) (rule run_from_after_categories)
  then show "\<exists>new. sent (snd (snd (syncData v c options api w))) = sent w @ new
          \<and> list_all (allowed_request api) new"
    by (cases "syncReportsBlock v c options (after_categories v c options api w)")
      (auto simp: syncData_def syncBody_blocks run_from_def storeData_def setItem_def split: sum.splits)
next
  show "after_categories v c (options\<lparr>startDate := lower, endDate := upper\<rparr>) api w
       = after_categories v c options api w"
    by (simp add: after_categories_def state_before_def category_block_def)
qed


text \<open>A query with a date filter is not among the requests a sync may send.\<close>

lemma filtered_query_not_allowed:
  "\<not> allowed_request (sample_api 0)
       (GET (queryUrl (sample_api 0) (dateRangeQuery ''select * from Invoice'' (Some ''2024-01-01'') None)) h)"
  by (simp add: queryUrl_def dateRangeQuery_def companyUrl_def sample_api_def is_report_url_def
      encodeURIComponent_def uri_unreserved_def percent_byte_def hex_digit_def)

end
